theory Spec2Isabelle
  imports Complex_Main
begin

section \<open>Python values, errors and library calls\<close>

text \<open>
  The two generators (\<^verbatim>\<open>natale2009_based_synthetic_data_generator.py\<close>, called the basic
  generator below, and \<^verbatim>\<open>natale2009_advanced_generator.py\<close>, the advanced one) compute on
  Python floats. Floats are modelled as real numbers, so rounding errors of the binary
  representation are outside the model; the one float that is not a number, NaN, is a
  value of its own where the code produces it.

  An exception is a value of type \<open>error\<close>; a computation that may raise returns
  \<open>error + 'a\<close>, with \<open>Inl\<close> for the exception.
\<close>

datatype error = TypeError | ValueError | ZeroDivisionError | KeyError

definition ebind :: "error + 'a \<Rightarrow> ('a \<Rightarrow> error + 'b) \<Rightarrow> error + 'b" where
  "ebind m f = (case m of Inl e \<Rightarrow> Inl e | Inr x \<Rightarrow> f x)"

text \<open>The fields of a \<^verbatim>\<open>datetime.time\<close> (and the time part of a timestamp).\<close>

record time_of_day =
  hour :: nat
  minute :: nat
  second :: nat
  microsecond :: nat

text \<open>A \<^verbatim>\<open>datetime.timedelta\<close> as Python stores it.\<close>

record timedelta =
  td_days :: int
  td_seconds :: int
  td_microseconds :: int

definition total_seconds :: "timedelta \<Rightarrow> real" where
  "total_seconds d =
     of_int (td_days d) * 86400 + of_int (td_seconds d) + of_int (td_microseconds d) / 1000000"

text \<open>
  What a cell of the \<^verbatim>\<open>Mean\<close> column can hold, by the \<^verbatim>\<open>isinstance\<close> tests of
  \<^verbatim>\<open>convert_time_to_minutes\<close>: a timestamp (its calendar day as a number, and its time of
  day), a time of day, a duration, a string, an int or a float, or a value of any other type.
\<close>

datatype time_value =
    Timestamp int time_of_day
  | Time time_of_day
  | Timedelta timedelta
  | Str string
  | IntNum int
  | FloatNum real
  | Other

text \<open>A cell of a generated table.\<close>

datatype cell = StrV string | IntV int | FloatV real | NaN | NoneV

text \<open>The dictionary \<^verbatim>\<open>json_data\<close> of \<^verbatim>\<open>build_sleep_json\<close>.\<close>

record sleep_totals =
  totals_sl :: int
  totals_wans :: int
  totals_twt :: int
  totals_tib :: int
  totals_tst :: int
  totals_se :: cell

record sleep_block =
  block_start :: string
  block_end :: string
  block_totals :: sleep_totals

text \<open>
  The library calls of the generators, taken as parameters: numpy's global random
  generator with state \<open>'g\<close> (\<^verbatim>\<open>np.random.seed\<close> builds a state from the seed alone; each
  sampler returns a draw and the next state, or raises on arguments it rejects),
  \<^verbatim>\<open>pd.to_datetime(s).time()\<close> on a string (\<open>None\<close> when pandas cannot parse it and raises),
  the text of the calendar date that many days after 2024-03-01 in the format
  \<^verbatim>\<open>%d/%m/%Y\<close>, and \<^verbatim>\<open>json.dumps\<close>.
\<close>

record 'g libs =
  np_seed :: "int \<Rightarrow> error + 'g"
  np_normal :: "real \<Rightarrow> real \<Rightarrow> 'g \<Rightarrow> error + real \<times> 'g"
  np_gamma :: "real \<Rightarrow> real \<Rightarrow> 'g \<Rightarrow> error + real \<times> 'g"
  np_poisson :: "real \<Rightarrow> 'g \<Rightarrow> error + int \<times> 'g"
  pd_to_datetime :: "string \<Rightarrow> time_of_day option"
  strftime_date :: "int \<Rightarrow> string"
  json_dumps :: "sleep_block \<Rightarrow> string"

subsection \<open>Python arithmetic\<close>

definition py_div :: "real \<Rightarrow> real \<Rightarrow> error + real" where
  "py_div a b = (if b = 0 then Inl ZeroDivisionError else Inr (a / b))"

text \<open>\<^verbatim>\<open>x % y\<close> on floats: the remainder has the sign of the divisor.\<close>

definition py_mod :: "real \<Rightarrow> real \<Rightarrow> real" where
  "py_mod x y = x - y * of_int \<lfloor>x / y\<rfloor>"

text \<open>\<^verbatim>\<open>round(x)\<close> and \<^verbatim>\<open>np.round(x)\<close>: to the nearest integer, a tie to the even one.\<close>

definition py_round :: "real \<Rightarrow> int" where
  "py_round x =
     (let f = \<lfloor>x\<rfloor>; d = x - of_int f
      in if d < 1 / 2 then f else if 1 / 2 < d then f + 1 else if even f then f else f + 1)"

text \<open>\<^verbatim>\<open>round(x, 1)\<close>.\<close>

definition py_round1 :: "real \<Rightarrow> real" where
  "py_round1 x = of_int (py_round (x * 10)) / 10"

text \<open>\<^verbatim>\<open>int(x)\<close> on a float: towards zero.\<close>

definition py_int :: "real \<Rightarrow> int" where
  "py_int x = (if 0 \<le> x then \<lfloor>x\<rfloor> else \<lceil>x\<rceil>)"

definition np_clip :: "real \<Rightarrow> real \<Rightarrow> real \<Rightarrow> real" where
  "np_clip x lo hi = min (max x lo) hi"

subsection \<open>Formatting numbers\<close>

definition digit :: "nat \<Rightarrow> char" where
  "digit n = ''0123456789'' ! (n mod 10)"

fun str_nat :: "nat \<Rightarrow> string" where
  "str_nat n = (if n < 10 then [digit n] else str_nat (n div 10) @ [digit n])"

definition zero_pad :: "nat \<Rightarrow> string \<Rightarrow> string" where
  "zero_pad w s = replicate (w - length s) (CHR ''0'') @ s"

text \<open>The format \<^verbatim>\<open>{pid:03d}\<close>.\<close>

definition format_03d :: "int \<Rightarrow> string" where
  "format_03d i =
     (if i < 0 then CHR ''-'' # zero_pad 2 (str_nat (nat (- i))) else zero_pad 3 (str_nat (nat i)))"

section \<open>Time normalization\<close>

text \<open>
  \<^verbatim>\<open>convert_time_to_minutes\<close> is the same text in both generators. Three branches set
  \<^verbatim>\<open>mins\<close> and reach the final test of \<^verbatim>\<open>allow_negative\<close>; the branches of a duration and of
  a number return at once.
\<close>

definition evening :: "bool \<Rightarrow> int \<Rightarrow> real" where
  "evening allow_negative mins =
     (if allow_negative \<and> 1080 \<le> mins then of_int (mins - 1440) else of_int mins)"

fun convert_time_to_minutes :: "'g libs \<Rightarrow> time_value \<Rightarrow> bool \<Rightarrow> error + real" where
  "convert_time_to_minutes L (Timestamp d t) allow_negative =
     Inr (evening allow_negative (int (hour t * 60 + minute t)))"
| "convert_time_to_minutes L (Time t) allow_negative =
     Inr (evening allow_negative (int (hour t * 60 + minute t)))"
| "convert_time_to_minutes L (Timedelta d) allow_negative = Inr (total_seconds d / 60)"
| "convert_time_to_minutes L (Str s) allow_negative =
     (case pd_to_datetime L s of
        None \<Rightarrow> Inl ValueError
      | Some t \<Rightarrow> Inr (evening allow_negative (int (hour t * 60 + minute t))))"
| "convert_time_to_minutes L (IntNum i) allow_negative = Inr (of_int i)"
| "convert_time_to_minutes L (FloatNum x) allow_negative = Inr x"
| "convert_time_to_minutes L Other allow_negative = Inl TypeError"

section \<open>Clock formatting\<close>

text \<open>
  \<^verbatim>\<open>pd.to_datetime(m, unit='m').strftime("%H:%M")\<close> for a number of minutes \<open>m\<close> from 0:
  the hour and the minute of the instant that many minutes after midnight.
\<close>

definition strftime_HM :: "real \<Rightarrow> string" where
  "strftime_HM m =
     (let t = nat \<lfloor>m\<rfloor>
      in zero_pad 2 (str_nat (t div 60 mod 24)) @ '':'' @ zero_pad 2 (str_nat (t mod 60)))"

text \<open>The lambda applied to the three clock columns, and to the bounds of the sleep block.\<close>

definition minutes_to_clock :: "real \<Rightarrow> string" where
  "minutes_to_clock x = strftime_HM (py_mod x (24 * 60))"

section \<open>Rows and tables\<close>

text \<open>
  A record of the generator is a Python dictionary, which keeps the order in which its keys
  were set; a table is the list of its rows, every row with the table's columns as keys.
\<close>

type_synonym row = "(string \<times> cell) list"

type_synonym dataframe = "row list"

definition columns :: "dataframe \<Rightarrow> string list" where
  "columns df = (case df of [] \<Rightarrow> [] | r # _ \<Rightarrow> map fst r)"

text \<open>\<^verbatim>\<open>row[key]\<close>.\<close>

definition cell_at :: "row \<Rightarrow> string \<Rightarrow> error + cell" where
  "cell_at r key = (case map_of r key of None \<Rightarrow> Inl KeyError | Some v \<Rightarrow> Inr v)"

text \<open>\<^verbatim>\<open>row[key] = v\<close>: a new key goes last, a key already set keeps its place.\<close>

definition assign :: "row \<Rightarrow> string \<Rightarrow> cell \<Rightarrow> row" where
  "assign r key v =
     (if key \<in> set (map fst r) then map (\<lambda>(k, w). if k = key then (k, v) else (k, w)) r
      else r @ [(key, v)])"

text \<open>Applying a function that may raise to every element, in order.\<close>

fun emap :: "('a \<Rightarrow> error + 'b) \<Rightarrow> 'a list \<Rightarrow> error + 'b list" where
  "emap f [] = Inr []"
| "emap f (x # xs) =
     (case f x of
        Inl e \<Rightarrow> Inl e
      | Inr y \<Rightarrow> (case emap f xs of Inl e \<Rightarrow> Inl e | Inr ys \<Rightarrow> Inr (y # ys)))"

text \<open>\<^verbatim>\<open>df[col]\<close>: a table without rows has no columns.\<close>

definition get_column :: "string \<Rightarrow> dataframe \<Rightarrow> error + cell list" where
  "get_column col df =
     (if col \<in> set (columns df) then emap (\<lambda>r. cell_at r col) df else Inl KeyError)"

text \<open>\<^verbatim>\<open>df[col] = values\<close>.\<close>

definition set_column :: "string \<Rightarrow> cell list \<Rightarrow> dataframe \<Rightarrow> dataframe" where
  "set_column col vs df = map (\<lambda>(r, v). assign r col v) (zip df vs)"

text \<open>\<^verbatim>\<open>df.drop(columns=names)\<close>: every name must be a column.\<close>

definition drop_columns :: "string list \<Rightarrow> dataframe \<Rightarrow> error + dataframe" where
  "drop_columns names df =
     (if set names \<subseteq> set (columns df)
      then Inr (map (filter (\<lambda>(k, v). k \<notin> set names)) df)
      else Inl KeyError)"

text \<open>\<^verbatim>\<open>df[cols]\<close> for a list of columns: the columns in the order of the list.\<close>

definition select_columns :: "string list \<Rightarrow> dataframe \<Rightarrow> error + dataframe" where
  "select_columns cols df =
     (if set cols \<subseteq> set (columns df)
      then emap (\<lambda>r. emap (\<lambda>c. ebind (cell_at r c) (\<lambda>v. Inr (c, v))) cols) df
      else Inl KeyError)"

subsection \<open>Operations on cells\<close>

text \<open>
  \<^verbatim>\<open>pd.to_datetime(x % (24 * 60), unit='m').strftime("%H:%M")\<close> on a cell. The remainder of
  NaN is NaN, which pandas reads as the missing timestamp; it has no \<^verbatim>\<open>strftime\<close>.
\<close>

fun clock_of_cell :: "cell \<Rightarrow> error + cell" where
  "clock_of_cell (FloatV x) = Inr (StrV (minutes_to_clock x))"
| "clock_of_cell (IntV i) = Inr (StrV (minutes_to_clock (of_int i)))"
| "clock_of_cell NaN = Inl ValueError"
| "clock_of_cell (StrV s) = Inl TypeError"
| "clock_of_cell NoneV = Inl TypeError"

text \<open>\<^verbatim>\<open>int(round(c))\<close>.\<close>

fun int_round :: "cell \<Rightarrow> error + int" where
  "int_round (FloatV x) = Inr (py_round x)"
| "int_round (IntV i) = Inr i"
| "int_round NaN = Inl ValueError"
| "int_round (StrV s) = Inl TypeError"
| "int_round NoneV = Inl TypeError"

text \<open>\<^verbatim>\<open>round(c, 1)\<close>.\<close>

fun round1 :: "cell \<Rightarrow> error + cell" where
  "round1 (FloatV x) = Inr (FloatV (py_round1 x))"
| "round1 (IntV i) = Inr (IntV i)"
| "round1 NaN = Inr NaN"
| "round1 (StrV s) = Inl TypeError"
| "round1 NoneV = Inl TypeError"

text \<open>\<^verbatim>\<open>a + b\<close>.\<close>

fun add_cells :: "cell \<Rightarrow> cell \<Rightarrow> error + cell" where
  "add_cells (FloatV x) (FloatV y) = Inr (FloatV (x + y))"
| "add_cells (FloatV x) (IntV j) = Inr (FloatV (x + of_int j))"
| "add_cells (IntV i) (FloatV y) = Inr (FloatV (of_int i + y))"
| "add_cells (IntV i) (IntV j) = Inr (IntV (i + j))"
| "add_cells NaN (FloatV y) = Inr NaN"
| "add_cells NaN (IntV j) = Inr NaN"
| "add_cells (FloatV x) NaN = Inr NaN"
| "add_cells (IntV i) NaN = Inr NaN"
| "add_cells NaN NaN = Inr NaN"
| "add_cells (StrV s) (StrV t) = Inr (StrV (s @ t))"
| "add_cells a b = Inl TypeError"

section \<open>The parameter table\<close>

text \<open>
  The table read from the parameter file, indexed by \<^verbatim>\<open>Variable\<close>: the cells the generators
  read. The means of \<^verbatim>\<open>Light Off\<close> and \<^verbatim>\<open>Sleep End\<close> are clock-like cells of any shape;
  the other cells are numbers.
\<close>

record parameter_table =
  light_off_mean :: time_value
  light_off_sd :: real
  sleep_end_mean :: time_value
  sleep_end_sd :: real
  sol_mean :: real
  sol_sd :: real
  waso_mean :: real
  waso_sd :: real

datatype variable = Light_Off | Sleep_End | SOL | WASO

text \<open>
  The table after the two conversions of the means and the rescaling of the two standard
  deviations from hours to minutes: mean and standard deviation of each variable.
\<close>

definition normalize_parameters ::
  "'g libs \<Rightarrow> parameter_table \<Rightarrow> error + (variable \<Rightarrow> real \<times> real)" where
  "normalize_parameters L T =
     ebind (convert_time_to_minutes L (light_off_mean T) True) (\<lambda>loff.
     ebind (convert_time_to_minutes L (sleep_end_mean T) False) (\<lambda>send.
     Inr (\<lambda>var. case var of
            Light_Off \<Rightarrow> (loff, light_off_sd T * 60)
          | Sleep_End \<Rightarrow> (send, sleep_end_sd T * 60)
          | SOL \<Rightarrow> (sol_mean T, sol_sd T)
          | WASO \<Rightarrow> (waso_mean T, waso_sd T))))"

definition get_params :: "(variable \<Rightarrow> real \<times> real) \<Rightarrow> variable \<Rightarrow> real \<times> real" where
  "get_params df_params var = df_params var"

section \<open>Sampling one record\<close>

text \<open>
  Shape and scale of the Gamma distribution with the given mean and standard deviation:
  \<^verbatim>\<open>shape = (mu / sd) ** 2\<close>, \<^verbatim>\<open>scale = sd ** 2 / mu\<close>, on Python floats, whose division
  raises on a zero divisor. Nothing else is tested.
\<close>

definition gamma_parameters :: "real \<Rightarrow> real \<Rightarrow> error + real \<times> real" where
  "gamma_parameters mu sd =
     ebind (py_div mu sd) (\<lambda>q.
     ebind (py_div (sd ^ 2) mu) (\<lambda>scale.
     Inr (q ^ 2, scale)))"

text \<open>The body of the two loops of the basic generator.\<close>

definition basic_record ::
  "'g libs \<Rightarrow> (variable \<Rightarrow> real \<times> real) \<Rightarrow> int \<Rightarrow> int \<Rightarrow> 'g \<Rightarrow> error + row \<times> 'g" where
  "basic_record L df_params pid day g0 =
     (case get_params df_params Light_Off of (mu_loff, sd_loff) \<Rightarrow>
      ebind (np_normal L mu_loff sd_loff g0) (\<lambda>(lights_off_min, g1).
      case get_params df_params Sleep_End of (mu_send, sd_send) \<Rightarrow>
      ebind (np_normal L mu_send sd_send g1) (\<lambda>(sleep_end_min, g2).
      case get_params df_params SOL of (mu_sol, sd_sol) \<Rightarrow>
      ebind (gamma_parameters mu_sol sd_sol) (\<lambda>(shape_sol, scale_sol).
      ebind (np_gamma L shape_sol scale_sol g2) (\<lambda>(sol, g3).
      case get_params df_params WASO of (mu_waso, sd_waso) \<Rightarrow>
      ebind (gamma_parameters mu_waso sd_waso) (\<lambda>(shape_waso, scale_waso).
      ebind (np_gamma L shape_waso scale_waso g3) (\<lambda>(waso, g4).
      ebind (np_normal L 15 10 g4) (\<lambda>(w, g5).
      let wait_time = np_clip w 5 30;
          out_of_bed_min = sleep_end_min + wait_time;
          tib = out_of_bed_min - lights_off_min;
          tst = tib - (sol + waso);
          se = (if tib > 0 then FloatV (tst / tib * 100) else NaN);
          midpoint = (lights_off_min + sleep_end_min) / 2
      in Inr ([(''Code'', StrV (''Mock_'' @ format_03d pid)),
               (''Day'', IntV day),
               (''Lights_Off'', FloatV lights_off_min),
               (''Sleep_End'', FloatV sleep_end_min),
               (''SOL'', FloatV sol),
               (''WASO'', FloatV waso),
               (''Out_of_Bed'', FloatV out_of_bed_min),
               (''TIB'', FloatV tib),
               (''TST'', FloatV tst),
               (''SE'', se),
               (''Midpoint'', FloatV midpoint)], g5)))))))))"

text \<open>The body of the two loops of the advanced generator.\<close>

definition advanced_record ::
  "'g libs \<Rightarrow> (variable \<Rightarrow> real \<times> real) \<Rightarrow> int \<Rightarrow> int \<Rightarrow> 'g \<Rightarrow> error + row \<times> 'g" where
  "advanced_record L df_params pid day g0 =
     (case get_params df_params Light_Off of (mu_loff, sd_loff) \<Rightarrow>
      ebind (np_normal L mu_loff sd_loff g0) (\<lambda>(lights_off_min, g1).
      case get_params df_params Sleep_End of (mu_send, sd_send) \<Rightarrow>
      ebind (np_normal L mu_send sd_send g1) (\<lambda>(sleep_end_min, g2).
      case get_params df_params SOL of (mu_sol, sd_sol) \<Rightarrow>
      ebind (gamma_parameters mu_sol sd_sol) (\<lambda>(shape_sol, scale_sol).
      ebind (np_gamma L shape_sol scale_sol g2) (\<lambda>(sol, g3).
      case get_params df_params WASO of (mu_waso, sd_waso) \<Rightarrow>
      ebind (gamma_parameters mu_waso sd_waso) (\<lambda>(shape_waso, scale_waso).
      ebind (np_gamma L shape_waso scale_waso g3) (\<lambda>(waso, g4).
      ebind (np_normal L 15 10 g4) (\<lambda>(w, g5).
      let wait_time = np_clip w 5 30;
          out_of_bed_min = sleep_end_min + wait_time;
          tib = out_of_bed_min - lights_off_min;
          twt = sol + waso;
          tst = tib - (sol + waso);
          se = (if tib > 0 then FloatV (tst / tib * 100) else NaN);
          midpoint = (lights_off_min + out_of_bed_min) / 2
      in
      ebind (np_normal L 7 (3 / 2) g5) (\<lambda>(sq, g6).
      ebind (np_normal L (13 / 2) (9 / 5) g6) (\<lambda>(rested, g7).
      ebind (np_normal L 50 20 g7) (\<lambda>(activity, g8).
      ebind (np_poisson L (6 / 5) g8) (\<lambda>(caffeine, g9).
      ebind (np_normal L 45 15 g9) (\<lambda>(calm, g10).
      Inr ([(''Participant'', StrV (''Mock_'' @ format_03d pid)),
            (''Email'', StrV (''mock_'' @ format_03d pid @ ''@example.test'')),
            (''Day'', StrV (strftime_date L (day - 1))),
            (''Lights_Off'', FloatV lights_off_min),
            (''Sleep_End'', FloatV sleep_end_min),
            (''SOL'', FloatV sol),
            (''WASO'', FloatV waso),
            (''Out_of_Bed'', FloatV out_of_bed_min),
            (''TIB'', FloatV tib),
            (''TWT'', FloatV twt),
            (''TST'', FloatV tst),
            (''SE'', se),
            (''Midpoint'', FloatV midpoint),
            (''SQ'', IntV (py_int (np_clip (of_int (py_round sq)) 1 10))),
            (''Rested'', IntV (py_int (np_clip (of_int (py_round rested)) 1 10))),
            (''Physical_Activity_Minutes'', IntV (py_int (np_clip activity 0 180))),
            (''Caffeine'', IntV (py_int (np_clip (of_int caffeine) 0 6))),
            (''Medication'', NoneV),
            (''time to calm down and relax'', IntV (py_int (np_clip calm 0 120)))],
           g10))))))))))))))"

section \<open>The loops\<close>

text \<open>
  \<^verbatim>\<open>for pid in range(1, n_participants + 1): for day in range(1, days + 1):\<close> with the
  list \<^verbatim>\<open>records\<close> and the state of the random generator threaded through. An exception
  in the body ends the run.
\<close>

fun loop_days ::
  "(int \<Rightarrow> int \<Rightarrow> 'g \<Rightarrow> error + row \<times> 'g) \<Rightarrow> int \<Rightarrow> int list \<Rightarrow> row list \<Rightarrow> 'g
     \<Rightarrow> error + row list \<times> 'g" where
  "loop_days body pid [] records g = Inr (records, g)"
| "loop_days body pid (day # ds) records g =
     (case body pid day g of
        Inl e \<Rightarrow> Inl e
      | Inr (record, g') \<Rightarrow> loop_days body pid ds (records @ [record]) g')"

fun loop_participants ::
  "(int \<Rightarrow> int \<Rightarrow> 'g \<Rightarrow> error + row \<times> 'g) \<Rightarrow> int list \<Rightarrow> int \<Rightarrow> row list \<Rightarrow> 'g
     \<Rightarrow> error + row list \<times> 'g" where
  "loop_participants body [] days records g = Inr (records, g)"
| "loop_participants body (pid # pids) days records g =
     (case loop_days body pid [1..days] records g of
        Inl e \<Rightarrow> Inl e
      | Inr (records', g') \<Rightarrow> loop_participants body pids days records' g')"

section \<open>The finishing passes\<close>

text \<open>\<^verbatim>\<open>for col in [...]: df[f"{col}_Clock"] = df[col].apply(...)\<close>.\<close>

fun add_clock_columns :: "string list \<Rightarrow> dataframe \<Rightarrow> error + dataframe" where
  "add_clock_columns [] df = Inr df"
| "add_clock_columns (col # cols) df =
     (case get_column col df of
        Inl e \<Rightarrow> Inl e
      | Inr xs \<Rightarrow>
          (case emap clock_of_cell xs of
             Inl e \<Rightarrow> Inl e
           | Inr cs \<Rightarrow> add_clock_columns cols (set_column (col @ ''_Clock'') cs df)))"

definition build_sleep_json :: "'g libs \<Rightarrow> row \<Rightarrow> error + cell" where
  "build_sleep_json L row =
     ebind (ebind (cell_at row ''Lights_Off'') clock_of_cell) (\<lambda>start_time.
     ebind (ebind (cell_at row ''Sleep_End'') clock_of_cell) (\<lambda>end_time.
     ebind (ebind (cell_at row ''SOL'') int_round) (\<lambda>sl.
     ebind (ebind (cell_at row ''WASO'') int_round) (\<lambda>wans.
     ebind (ebind (cell_at row ''SOL'') (\<lambda>a. ebind (cell_at row ''WASO'') (\<lambda>b.
              ebind (add_cells a b) int_round))) (\<lambda>twt.
     ebind (ebind (cell_at row ''TIB'') int_round) (\<lambda>tib.
     ebind (ebind (cell_at row ''TST'') int_round) (\<lambda>tst.
     ebind (ebind (cell_at row ''SE'') round1) (\<lambda>se.
     case (start_time, end_time) of
       (StrV s, StrV e) \<Rightarrow>
         Inr (StrV (json_dumps L
           \<lparr>block_start = s, block_end = e,
            block_totals = \<lparr>totals_sl = sl, totals_wans = wans, totals_twt = twt,
                            totals_tib = tib, totals_tst = tst, totals_se = se\<rparr>\<rparr>))
     | _ \<Rightarrow> Inl TypeError))))))))"

definition sleep_vars :: "string list" where
  "sleep_vars =
     [''Out_of_Bed'', ''Midpoint'', ''Lights_Off_Clock'', ''Sleep_End_Clock'', ''Midpoint_Clock'',
      ''Lights_Off'', ''Sleep_End'', ''SOL'', ''WASO'', ''TWT'', ''TIB'', ''TST'', ''SE'']"

section \<open>The generators\<close>

text \<open>
  A run starts from whatever state numpy's global generator is in, seeds it, and leaves
  it in the state after the last draw. The basic generator writes and returns one table.
\<close>

definition generate_basic ::
  "'g libs \<Rightarrow> parameter_table \<Rightarrow> int \<Rightarrow> int \<Rightarrow> int \<Rightarrow> 'g \<Rightarrow> error + dataframe \<times> 'g" where
  "generate_basic L T days n_participants seed g_before =
     ebind (np_seed L seed) (\<lambda>g.
     ebind (normalize_parameters L T) (\<lambda>df_params.
     ebind (loop_participants (basic_record L df_params) [1..n_participants] days [] g)
       (\<lambda>(records, g').
     ebind (add_clock_columns [''Lights_Off'', ''Sleep_End'', ''Midpoint''] records) (\<lambda>df.
     Inr (df, g')))))"

text \<open>
  The advanced generator writes two tables: the full one, which it returns, and the one
  with the sleep block.
\<close>

definition generate_advanced ::
  "'g libs \<Rightarrow> parameter_table \<Rightarrow> int \<Rightarrow> int \<Rightarrow> int \<Rightarrow> 'g
     \<Rightarrow> error + (dataframe \<times> dataframe) \<times> 'g" where
  "generate_advanced L T days n_participants seed g_before =
     ebind (np_seed L seed) (\<lambda>g.
     ebind (normalize_parameters L T) (\<lambda>df_params.
     ebind (loop_participants (advanced_record L df_params) [1..n_participants] days [] g)
       (\<lambda>(records, g').
     ebind (add_clock_columns [''Lights_Off'', ''Sleep_End'', ''Midpoint''] records) (\<lambda>df.
     ebind (emap (build_sleep_json L) df) (\<lambda>blocks.
     let df_with_json = set_column ''Sleep_JSON'' blocks df in
     ebind (drop_columns sleep_vars df_with_json) (\<lambda>df_json_only.
     let cols_order = filter (\<lambda>col. col \<noteq> ''Sleep_JSON'') (columns df_json_only)
                        @ [''Sleep_JSON'']
     in
     ebind (select_columns cols_order df_json_only) (\<lambda>df_json_only.
     Inr ((df, df_json_only), g'))))))))"

section \<open>The rows of a run in closed form\<close>

text \<open>
  The draws that make one record: lights off, sleep end, sleep onset latency, wake after
  sleep onset, the draw of the wait before rising (before clipping), and the five draws
  of the habit variables of the advanced generator, which the basic generator does not
  make.
\<close>

record primitives =
  p_lights_off :: real
  p_sleep_end :: real
  p_sol :: real
  p_waso :: real
  p_wait :: real
  p_sq :: real
  p_rested :: real
  p_activity :: real
  p_caffeine :: int
  p_calm :: real


definition advanced_row :: "'g libs \<Rightarrow> int \<Rightarrow> int \<Rightarrow> primitives \<Rightarrow> row" where
  "advanced_row L pid day p =
     (let out_of_bed_min = p_sleep_end p + np_clip (p_wait p) 5 30;
          tib = out_of_bed_min - p_lights_off p;
          tst = tib - (p_sol p + p_waso p)
      in [(''Participant'', StrV (''Mock_'' @ format_03d pid)),
          (''Email'', StrV (''mock_'' @ format_03d pid @ ''@example.test'')),
          (''Day'', StrV (strftime_date L (day - 1))),
          (''Lights_Off'', FloatV (p_lights_off p)),
          (''Sleep_End'', FloatV (p_sleep_end p)),
          (''SOL'', FloatV (p_sol p)),
          (''WASO'', FloatV (p_waso p)),
          (''Out_of_Bed'', FloatV out_of_bed_min),
          (''TIB'', FloatV tib),
          (''TWT'', FloatV (p_sol p + p_waso p)),
          (''TST'', FloatV tst),
          (''SE'', if tib > 0 then FloatV (tst / tib * 100) else NaN),
          (''Midpoint'', FloatV ((p_lights_off p + out_of_bed_min) / 2)),
          (''SQ'', IntV (py_int (np_clip (of_int (py_round (p_sq p))) 1 10))),
          (''Rested'', IntV (py_int (np_clip (of_int (py_round (p_rested p))) 1 10))),
          (''Physical_Activity_Minutes'', IntV (py_int (np_clip (p_activity p) 0 180))),
          (''Caffeine'', IntV (py_int (np_clip (of_int (p_caffeine p)) 0 6))),
          (''Medication'', NoneV),
          (''time to calm down and relax'', IntV (py_int (np_clip (p_calm p) 0 120)))])"


definition advanced_full_row :: "'g libs \<Rightarrow> int \<Rightarrow> int \<Rightarrow> primitives \<Rightarrow> row" where
  "advanced_full_row L pid day p =
     advanced_row L pid day p @
     [(''Lights_Off_Clock'', StrV (minutes_to_clock (p_lights_off p))),
      (''Sleep_End_Clock'', StrV (minutes_to_clock (p_sleep_end p))),
      (''Midpoint_Clock'', StrV (minutes_to_clock
         ((p_lights_off p + (p_sleep_end p + np_clip (p_wait p) 5 30)) / 2)))]"

text \<open>The sleep block of a row, and the row of the table with the sleep block.\<close>

definition advanced_block :: "primitives \<Rightarrow> sleep_block" where
  "advanced_block p =
     (let tib = p_sleep_end p + np_clip (p_wait p) 5 30 - p_lights_off p;
          tst = tib - (p_sol p + p_waso p)
      in \<lparr>block_start = minutes_to_clock (p_lights_off p),
          block_end = minutes_to_clock (p_sleep_end p),
          block_totals =
            \<lparr>totals_sl = py_round (p_sol p),
             totals_wans = py_round (p_waso p),
             totals_twt = py_round (p_sol p + p_waso p),
             totals_tib = py_round tib,
             totals_tst = py_round tst,
             totals_se = (if tib > 0 then FloatV (py_round1 (tst / tib * 100)) else NaN)\<rparr>\<rparr>)"

definition advanced_block_row :: "'g libs \<Rightarrow> int \<Rightarrow> int \<Rightarrow> primitives \<Rightarrow> row" where
  "advanced_block_row L pid day p =
     [(''Participant'', StrV (''Mock_'' @ format_03d pid)),
      (''Email'', StrV (''mock_'' @ format_03d pid @ ''@example.test'')),
      (''Day'', StrV (strftime_date L (day - 1))),
      (''SQ'', IntV (py_int (np_clip (of_int (py_round (p_sq p))) 1 10))),
      (''Rested'', IntV (py_int (np_clip (of_int (py_round (p_rested p))) 1 10))),
      (''Physical_Activity_Minutes'', IntV (py_int (np_clip (p_activity p) 0 180))),
      (''Caffeine'', IntV (py_int (np_clip (of_int (p_caffeine p)) 0 6))),
      (''Medication'', NoneV),
      (''time to calm down and relax'', IntV (py_int (np_clip (p_calm p) 0 120))),
      (''Sleep_JSON'', StrV (json_dumps L (advanced_block p)))]"

definition advanced_columns :: "string list" where
  "advanced_columns =
     [''Participant'', ''Email'', ''Day'', ''Lights_Off'', ''Sleep_End'', ''SOL'', ''WASO'',
      ''Out_of_Bed'', ''TIB'', ''TWT'', ''TST'', ''SE'', ''Midpoint'', ''SQ'', ''Rested'',
      ''Physical_Activity_Minutes'', ''Caffeine'', ''Medication'', ''time to calm down and relax'',
      ''Lights_Off_Clock'', ''Sleep_End_Clock'', ''Midpoint_Clock'']"

definition block_view_columns :: "string list" where
  "block_view_columns =
     [''Participant'', ''Email'', ''Day'', ''SQ'', ''Rested'', ''Physical_Activity_Minutes'',
      ''Caffeine'', ''Medication'', ''time to calm down and relax'', ''Sleep_JSON'']"

section \<open>Properties of records and tables\<close>

text \<open>The number in a field of a row, when the field holds one.\<close>

definition float_at :: "row \<Rightarrow> string \<Rightarrow> real option" where
  "float_at r key = (case map_of r key of Some (FloatV x) \<Rightarrow> Some x | _ \<Rightarrow> None)"



text \<open>
  The sleep block as the specification words it: the clock strings of lights off and sleep
  end, taken modulo 1440 minutes, and the rounded numeric fields of the row, the efficiency
  to one decimal.
\<close>

definition spec_sleep_block :: "row \<Rightarrow> sleep_block option" where
  "spec_sleep_block r =
     (case (float_at r ''Lights_Off'', float_at r ''Sleep_End'', float_at r ''SOL'',
            float_at r ''WASO'', float_at r ''TIB'', float_at r ''TST'', map_of r ''SE'') of
        (Some lights_off, Some sleep_end, Some sol, Some waso, Some tib, Some tst, Some se) \<Rightarrow>
          Some \<lparr>block_start = strftime_HM (py_mod lights_off 1440),
                block_end = strftime_HM (py_mod sleep_end 1440),
                block_totals =
                  \<lparr>totals_sl = py_round sol,
                   totals_wans = py_round waso,
                   totals_twt = py_round (sol + waso),
                   totals_tib = py_round tib,
                   totals_tst = py_round tst,
                   totals_se = (case se of FloatV x \<Rightarrow> FloatV (py_round1 x) | c \<Rightarrow> c)\<rparr>\<rparr>
      | _ \<Rightarrow> None)"

text \<open>The participant and the day of a row, and those of the loop indices.\<close>

definition identity_cells :: "row \<Rightarrow> (error + cell) \<times> (error + cell)" where
  "identity_cells r = (cell_at r ''Participant'', cell_at r ''Day'')"

definition identity_of :: "'g libs \<Rightarrow> int \<times> int \<Rightarrow> (error + cell) \<times> (error + cell)" where
  "identity_of L x =
     (Inr (StrV (''Mock_'' @ format_03d (fst x))), Inr (StrV (strftime_date L (snd x - 1))))"

section \<open>An instance of the libraries\<close>

text \<open>
  A small deterministic instance, to run the generators on: the state of the random
  generator is a counter, the samplers reject the arguments numpy rejects (a negative
  standard deviation, shape, scale or rate), the parser knows three strings, and the
  calendar covers March 2024.
\<close>

definition example_libs :: "nat libs" where
  "example_libs =
     \<lparr>np_seed = (\<lambda>s. if s < 0 then Inl ValueError else Inr (nat s)),
      np_normal = (\<lambda>mu sd g. if sd < 0 then Inl ValueError
                                else Inr (mu + sd * (of_nat (g mod 5) - 2) / 2, g + 1)),
      np_gamma = (\<lambda>shape scale g. if shape < 0 \<or> scale < 0 then Inl ValueError
                                    else Inr (shape * scale * of_nat (1 + g mod 3) / 2, g + 1)),
      np_poisson = (\<lambda>lam g. if lam < 0 then Inl ValueError else Inr (int (g mod 4), g + 1)),
      pd_to_datetime = (\<lambda>s.
         if s = ''23:30'' then Some \<lparr>hour = 23, minute = 30, second = 0, microsecond = 0\<rparr>
         else if s = ''23:30:59'' then Some \<lparr>hour = 23, minute = 30, second = 59, microsecond = 0\<rparr>
         else if s = ''06:30'' then Some \<lparr>hour = 6, minute = 30, second = 0, microsecond = 0\<rparr>
         else None),
      strftime_date = (\<lambda>d. if 0 \<le> d \<and> d < 31 then zero_pad 2 (str_nat (nat d + 1)) @ ''/03/2024''
                             else ''later''),
      json_dumps = (\<lambda>b. block_start b @ ''-'' @ block_end b)\<rparr>"

definition example_table :: parameter_table where
  "example_table =
     \<lparr>light_off_mean = Time \<lparr>hour = 23, minute = 30, second = 0, microsecond = 0\<rparr>,
      light_off_sd = 1,
      sleep_end_mean = Time \<lparr>hour = 7, minute = 0, second = 0, microsecond = 0\<rparr>,
      sleep_end_sd = 1 / 2,
      sol_mean = 20, sol_sd = 10, waso_mean = 30, waso_sd = 15\<rparr>"

text \<open>
  Normalized parameter tables: the one of \<open>example_table\<close>, one with a negative standard
  deviation of the sleep onset latency, and one with a zero mean.
\<close>

definition example_params :: "variable \<Rightarrow> real \<times> real" where
  "example_params var =
     (case var of Light_Off \<Rightarrow> (- 30, 60) | Sleep_End \<Rightarrow> (420, 30)
      | SOL \<Rightarrow> (20, 10) | WASO \<Rightarrow> (30, 15))"



section \<open>Lemmas: exceptions, loops and tables\<close>

lemma ebind_Inl [simp]: "ebind (Inl e) f = Inl e"
  by (simp add: ebind_def)

lemma ebind_Inr [simp]: "ebind (Inr x) f = f x"
  by (simp add: ebind_def)

lemma ebind_eq_Inr: "ebind m f = Inr y \<longleftrightarrow> (\<exists>x. m = Inr x \<and> f x = Inr y)"
  by (cases m) simp_all


lemma advanced_record_row:
  assumes "advanced_record L P pid day g = Inr (r, g')"
  shows "\<exists>p. r = advanced_row L pid day p"
proof -
  have "\<exists>lo send sol waso w sq rested act caf calm. r = advanced_row L pid day
          \<lparr>p_lights_off = lo, p_sleep_end = send, p_sol = sol, p_waso = waso,
           p_wait = w, p_sq = sq, p_rested = rested, p_activity = act, p_caffeine = caf,
           p_calm = calm\<rparr>"
    using assms unfolding advanced_record_def advanced_row_def get_params_def
    apply (simp only: ebind_eq_Inr case_prod_beta Let_def primitives.simps)
    apply (elim exE conjE)
    apply (simp only: sum.inject prod.inject)
    apply (elim conjE)
    apply hypsubst
    apply (intro exI)
    apply (rule refl)
    done
  then show ?thesis by blast
qed

lemma loop_days_rows:
  assumes body: "\<And>day g r g1. body pid day g = Inr (r, g1) \<Longrightarrow> \<exists>p. r = F pid day p"
  shows "loop_days body pid ds acc g = Inr (recs, g') \<Longrightarrow>
         \<exists>ps. length ps = length ds \<and> recs = acc @ map (\<lambda>(day, p). F pid day p) (zip ds ps)"
proof (induction ds arbitrary: acc g)
  case Nil
  then show ?case by simp
next
  case (Cons day ds)
  from Cons.prems obtain r g1 where
    b: "body pid day g = Inr (r, g1)" and l: "loop_days body pid ds (acc @ [r]) g1 = Inr (recs, g')"
    by (auto split: sum.splits)
  from body [OF b] obtain p where r: "r = F pid day p" by blast
  from Cons.IH [OF l] obtain ps where
    ps: "length ps = length ds" "recs = (acc @ [r]) @ map (\<lambda>(day, p). F pid day p) (zip ds ps)"
    by blast
  show ?case
  proof (intro exI conjI)
    show "length (p # ps) = length (day # ds)" using ps by simp
    show "recs = acc @ map (\<lambda>(day, p). F pid day p) (zip (day # ds) (p # ps))"
      using ps r by simp
  qed
qed

lemma loop_participants_rows:
  assumes body: "\<And>pid day g r g1. body pid day g = Inr (r, g1) \<Longrightarrow> \<exists>p. r = F pid day p"
  shows "loop_participants body pids days acc g = Inr (recs, g') \<Longrightarrow>
         \<exists>xs. map fst xs = List.product pids [1..days] \<and>
              recs = acc @ map (\<lambda>((pid, day), p). F pid day p) xs"
proof (induction pids arbitrary: acc g)
  case Nil
  then show ?case by simp
next
  case (Cons pid pids)
  from Cons.prems obtain recs1 g1 where
    d: "loop_days body pid [1..days] acc g = Inr (recs1, g1)" and
    l: "loop_participants body pids days recs1 g1 = Inr (recs, g')"
    by (auto split: sum.splits)
  have "\<exists>ps. length ps = length [1..days] \<and>
             recs1 = acc @ map (\<lambda>(day, p). F pid day p) (zip [1..days] ps)"
    by (rule loop_days_rows [OF _ d]) (erule body)
  then obtain ps where
    ps: "length ps = length [1..days]"
        "recs1 = acc @ map (\<lambda>(day, p). F pid day p) (zip [1..days] ps)"
    by blast
  from Cons.IH [OF l] obtain xs where
    xs: "map fst xs = List.product pids [1..days]"
        "recs = recs1 @ map (\<lambda>((pid, day), p). F pid day p) xs"
    by blast
  let ?ys = "zip (map (Pair pid) [1..days]) ps"
  have 1: "map fst ?ys = map (Pair pid) [1..days]"
    using ps(1) by simp
  have 2: "map (\<lambda>(day, p). F pid day p) (zip [1..days] ps) = map (\<lambda>((pid, day), p). F pid day p) ?ys"
    by (simp add: zip_map1 case_prod_beta)
  show ?case
  proof (intro exI conjI)
    show "map fst (?ys @ xs) = List.product (pid # pids) [1..days]"
      using 1 xs(1) by simp
    show "recs = acc @ map (\<lambda>((pid, day), p). F pid day p) (?ys @ xs)"
      using ps(2) xs(2) 2 by simp
  qed
qed

lemma emap_map_Inr:
  "(\<And>x. x \<in> set xs \<Longrightarrow> f (R x) = Inr (h x)) \<Longrightarrow> emap f (map R xs) = Inr (map h xs)"
  by (induction xs) simp_all

lemma cell_at_key: "cell_at r col = Inr v \<Longrightarrow> col \<in> set (map fst r)"
  by (auto simp: cell_at_def split: option.splits dest: map_of_SomeD intro: rev_image_eqI)

lemma get_column_map:
  assumes "xs \<noteq> []" and "\<And>x. cell_at (R x) col = Inr (h x)"
  shows "get_column col (map R xs) = Inr (map h xs)"
proof -
  from assms(1) obtain x xs' where xs: "xs = x # xs'" by (cases xs) auto
  have "col \<in> set (columns (map R xs))"
    using cell_at_key [OF assms(2) [of x]] by (simp add: xs columns_def)
  then show ?thesis
    using emap_map_Inr [of xs "\<lambda>r. cell_at r col" R h] assms(2) by (simp add: get_column_def)
qed

lemma set_column_map:
  "set_column col (map h xs) (map R xs) = map (\<lambda>x. assign (R x) col (h x)) xs"
  by (induction xs) (simp_all add: set_column_def)

lemma clock_step:
  assumes "xs \<noteq> []" and "\<And>x. cell_at (R x) col = Inr (FloatV (v x))"
  shows "add_clock_columns (col # cols) (map R xs) =
         add_clock_columns cols
           (map (\<lambda>x. assign (R x) (col @ ''_Clock'') (StrV (minutes_to_clock (v x)))) xs)"
proof -
  have g: "get_column col (map R xs) = Inr (map (\<lambda>x. FloatV (v x)) xs)"
    using assms by (rule get_column_map)
  have e: "emap clock_of_cell (map (\<lambda>x. FloatV (v x)) xs) =
           Inr (map (\<lambda>x. StrV (minutes_to_clock (v x))) xs)"
    by (rule emap_map_Inr) simp
  show ?thesis
    by (simp add: g e set_column_map)
qed

lemma add_clock_columns_empty: "add_clock_columns (col # cols) [] = Inl KeyError"
  by (simp add: get_column_def columns_def)

lemma advanced_clock_columns:
  assumes "xs \<noteq> []"
  shows "add_clock_columns [''Lights_Off'', ''Sleep_End'', ''Midpoint'']
           (map (\<lambda>((pid, day), p). advanced_row L pid day p) xs) =
         Inr (map (\<lambda>((pid, day), p). advanced_full_row L pid day p) xs)"
  apply (subst clock_step [where v = "\<lambda>((pid, day), p). p_lights_off p", OF assms])
   apply (simp add: cell_at_def advanced_row_def Let_def case_prod_beta)
  apply (subst clock_step [where v = "\<lambda>((pid, day), p). p_sleep_end p", OF assms])
   apply (simp add: cell_at_def advanced_row_def Let_def case_prod_beta assign_def)
  apply (subst clock_step [where v = "\<lambda>((pid, day), p).
            (p_lights_off p + (p_sleep_end p + np_clip (p_wait p) 5 30)) / 2", OF assms])
   apply (simp add: cell_at_def advanced_row_def Let_def case_prod_beta assign_def)
  apply (simp add: advanced_full_row_def advanced_row_def Let_def case_prod_beta assign_def)
  done


lemma build_sleep_json_full_row:
  "build_sleep_json L (advanced_full_row L pid day p) = Inr (StrV (json_dumps L (advanced_block p)))"
  by (simp add: build_sleep_json_def cell_at_def advanced_full_row_def advanced_row_def
      advanced_block_def Let_def)

lemma columns_map:
  assumes "xs \<noteq> []" and "\<And>x. map fst (R x) = ks"
  shows "columns (map R xs) = ks"
  using assms by (cases xs) (simp_all add: columns_def)

lemma drop_columns_map:
  assumes "xs \<noteq> []" and "\<And>x. map fst (R x) = ks" and "set names \<subseteq> set ks"
  shows "drop_columns names (map R xs) =
         Inr (map (\<lambda>x. filter (\<lambda>(k, v). k \<notin> set names) (R x)) xs)"
  using assms(3) by (simp add: drop_columns_def columns_map [OF assms(1,2)] comp_def)

lemma select_columns_map:
  assumes "xs \<noteq> []" and "\<And>x. map fst (R x) = ks" and "set cols \<subseteq> set ks"
    and "\<And>x. emap (\<lambda>c. ebind (cell_at (R x) c) (\<lambda>v. Inr (c, v))) cols = Inr (S x)"
  shows "select_columns cols (map R xs) = Inr (map S xs)"
  using assms(3) emap_map_Inr [of xs "\<lambda>r. emap (\<lambda>c. ebind (cell_at r c) (\<lambda>v. Inr (c, v))) cols" R S]
  by (simp add: select_columns_def columns_map [OF assms(1,2)] assms(4))

lemma advanced_block_view:
  assumes "xs \<noteq> []"
  shows "ebind (drop_columns sleep_vars
            (set_column ''Sleep_JSON''
               (map (\<lambda>((pid, day), p). StrV (json_dumps L (advanced_block p))) xs)
               (map (\<lambda>((pid, day), p). advanced_full_row L pid day p) xs)))
           (\<lambda>df_json_only.
              select_columns
                (filter (\<lambda>col. col \<noteq> ''Sleep_JSON'') (columns df_json_only) @ [''Sleep_JSON''])
                df_json_only) =
         Inr (map (\<lambda>((pid, day), p). advanced_block_row L pid day p) xs)"
  apply (simp only: set_column_map)
  apply (subst drop_columns_map [OF assms, where ks = "advanced_columns @ [''Sleep_JSON'']"])
    apply (simp add: advanced_full_row_def advanced_row_def Let_def case_prod_beta assign_def advanced_columns_def)
   apply (simp add: advanced_full_row_def advanced_row_def Let_def sleep_vars_def advanced_columns_def)
  apply (simp only: ebind_Inr)
  apply (subst columns_map [OF assms, where ks = block_view_columns])
   apply (simp add: advanced_full_row_def advanced_row_def advanced_block_row_def Let_def
      case_prod_beta assign_def sleep_vars_def advanced_columns_def block_view_columns_def)
  apply (subst select_columns_map [OF assms, where ks = block_view_columns
        and S = "\<lambda>((pid, day), p). advanced_block_row L pid day p"])
     apply (simp add: advanced_full_row_def advanced_row_def advanced_block_row_def Let_def
      case_prod_beta assign_def sleep_vars_def advanced_columns_def block_view_columns_def)
    apply (simp add: advanced_block_row_def block_view_columns_def)
   apply (simp add: advanced_full_row_def advanced_row_def advanced_block_row_def Let_def
      case_prod_beta assign_def sleep_vars_def cell_at_def block_view_columns_def)
  apply (rule refl)
  done


lemma generate_advanced_rows:
  assumes "generate_advanced L T days n seed g = Inr ((df, dfj), g')"
  shows "\<exists>xs. map fst xs = List.product [1..n] [1..days] \<and> xs \<noteq> [] \<and>
              df = map (\<lambda>((pid, day), p). advanced_full_row L pid day p) xs \<and>
              dfj = map (\<lambda>((pid, day), p). advanced_block_row L pid day p) xs"
proof -
  from assms obtain g0 P recs blocks where
    loop: "loop_participants (advanced_record L P) [1..n] days [] g0 = Inr (recs, g')" and
    clock: "add_clock_columns [''Lights_Off'', ''Sleep_End'', ''Midpoint''] recs = Inr df" and
    blocks: "emap (build_sleep_json L) df = Inr blocks" and
    view: "ebind (drop_columns sleep_vars (set_column ''Sleep_JSON'' blocks df))
             (\<lambda>df_json_only.
                select_columns
                  (filter (\<lambda>col. col \<noteq> ''Sleep_JSON'') (columns df_json_only) @ [''Sleep_JSON''])
                  df_json_only) = Inr dfj"
    by (auto simp: generate_advanced_def ebind_eq_Inr Let_def)
  have "\<exists>xs. map fst xs = List.product [1..n] [1..days] \<and>
             recs = [] @ map (\<lambda>((pid, day), p). advanced_row L pid day p) xs"
    by (rule loop_participants_rows [OF _ loop]) (erule advanced_record_row)
  then obtain xs where
    xs: "map fst xs = List.product [1..n] [1..days]"
        "recs = map (\<lambda>((pid, day), p). advanced_row L pid day p) xs"
    by auto
  have ne: "xs \<noteq> []"
    using clock xs(2) by (auto simp del: add_clock_columns.simps simp add: add_clock_columns_empty)
  have df: "df = map (\<lambda>((pid, day), p). advanced_full_row L pid day p) xs"
    using clock advanced_clock_columns [OF ne, of L] by (simp add: xs(2))
  have "emap (build_sleep_json L) (map (\<lambda>((pid, day), p). advanced_full_row L pid day p) xs) =
        Inr (map (\<lambda>((pid, day), p). StrV (json_dumps L (advanced_block p))) xs)"
    by (rule emap_map_Inr) (simp add: case_prod_beta build_sleep_json_full_row)
  with blocks have b: "blocks = map (\<lambda>((pid, day), p). StrV (json_dumps L (advanced_block p))) xs"
    by (simp add: df)
  have "dfj = map (\<lambda>((pid, day), p). advanced_block_row L pid day p) xs"
    using view advanced_block_view [OF ne, of L] by (simp add: df b)
  with xs(1) ne df show ?thesis by blast
qed

section \<open>Clock formatting and time normalization\<close>

lemma py_mod_idem: "py_mod (py_mod m 1440) 1440 = py_mod m 1440"
proof -
  have e: "(m - 1440 * of_int \<lfloor>m / 1440\<rfloor>) / 1440 = m / 1440 - of_int \<lfloor>m / 1440\<rfloor>"
    by (simp add: diff_divide_distrib)
  have "\<lfloor>(m - 1440 * of_int \<lfloor>m / 1440\<rfloor>) / 1440\<rfloor> = \<lfloor>m / 1440 - of_int \<lfloor>m / 1440\<rfloor>\<rfloor>"
    by (simp only: e)
  also have "\<dots> = 0"
    by (simp only: floor_diff_of_int)
  finally show ?thesis by (simp add: py_mod_def)
qed

lemma py_mod_shift: "py_mod (m - 1440) 1440 = py_mod m 1440"
proof -
  have e: "(m - 1440) / 1440 = m / 1440 - 1" by (simp add: diff_divide_distrib)
  have "\<lfloor>(m - 1440) / 1440\<rfloor> = \<lfloor>m / 1440 - 1\<rfloor>" by (simp only: e)
  also have "\<dots> = \<lfloor>m / 1440\<rfloor> - 1" by (simp only: floor_diff_one)
  finally show ?thesis by (simp add: py_mod_def algebra_simps)
qed

text \<open>
  C5. Clock formatting is invariant under shifts by whole days: a number of minutes \<open>m\<close> and
  its remainder modulo 1440 format to the same clock string, and so do \<open>m - 1440\<close> and \<open>m\<close>.
\<close>

theorem clock_whole_days:
  "minutes_to_clock m = minutes_to_clock (py_mod m 1440) \<and>
   minutes_to_clock (m - 1440) = minutes_to_clock m"
  by (simp add: minutes_to_clock_def py_mod_idem py_mod_shift)









text \<open>
  C10. Time normalization discards what is below the minute: two timestamps, times of day
  or parsed strings with the same hour and minute normalize to the same value, which
  without the evening flag is \<open>hour * 60 + minute\<close>; a duration keeps its fraction of a
  minute, its total seconds divided by 60.
\<close>

theorem sub_minute_precision:
  "(hour t = hour t' \<and> minute t = minute t' \<longrightarrow>
      convert_time_to_minutes L (Time t) a = convert_time_to_minutes L (Time t') a \<and>
      convert_time_to_minutes L (Timestamp d t) a = convert_time_to_minutes L (Timestamp d' t') a \<and>
      (pd_to_datetime L s = Some t \<and> pd_to_datetime L s' = Some t' \<longrightarrow>
         convert_time_to_minutes L (Str s) a = convert_time_to_minutes L (Str s') a)) \<and>
   convert_time_to_minutes L (Time t) False = Inr (of_nat (hour t * 60 + minute t)) \<and>
   convert_time_to_minutes L (Timestamp d t) False = Inr (of_nat (hour t * 60 + minute t)) \<and>
   (pd_to_datetime L s = Some t \<longrightarrow>
      convert_time_to_minutes L (Str s) False = Inr (of_nat (hour t * 60 + minute t))) \<and>
   convert_time_to_minutes L (Timedelta td) a = Inr (total_seconds td / 60)"
  by (simp add: evening_def)

theorem sub_minute_precision_witness:
  "convert_time_to_minutes example_libs
     (Time \<lparr>hour = 23, minute = 30, second = 0, microsecond = 0\<rparr>) False =
   convert_time_to_minutes example_libs
     (Time \<lparr>hour = 23, minute = 30, second = 59, microsecond = 999999\<rparr>) False \<and>
   convert_time_to_minutes example_libs (Str ''23:30'') True =
   convert_time_to_minutes example_libs (Str ''23:30:59'') True \<and>
   convert_time_to_minutes example_libs (Str ''23:30:59'') False = Inr 1410 \<and>
   convert_time_to_minutes example_libs
     (Timedelta \<lparr>td_days = 0, td_seconds = 90, td_microseconds = 0\<rparr>) False = Inr (3 / 2) \<and>
   convert_time_to_minutes example_libs
     (Timedelta \<lparr>td_days = 0, td_seconds = 60, td_microseconds = 0\<rparr>) False = Inr 1"
proof -
  have p: "pd_to_datetime example_libs ''23:30'' =
             Some \<lparr>hour = 23, minute = 30, second = 0, microsecond = 0\<rparr>"
          "pd_to_datetime example_libs ''23:30:59'' =
             Some \<lparr>hour = 23, minute = 30, second = 59, microsecond = 0\<rparr>"
    by (simp_all add: example_libs_def)
  have q: "convert_time_to_minutes example_libs (Str ''23:30:59'') False = Inr 1410"
    using p(2) sub_minute_precision [of "\<lparr>hour = 23, minute = 30, second = 59, microsecond = 0\<rparr>"
        "\<lparr>hour = 23, minute = 30, second = 59, microsecond = 0\<rparr>" example_libs False 0 0
        "''23:30:59''" "''23:30:59''"]
    by simp
  have r: "convert_time_to_minutes example_libs (Str ''23:30'') True =
           convert_time_to_minutes example_libs (Str ''23:30:59'') True"
    using p sub_minute_precision [of "\<lparr>hour = 23, minute = 30, second = 0, microsecond = 0\<rparr>"
        "\<lparr>hour = 23, minute = 30, second = 59, microsecond = 0\<rparr>" example_libs True 0 0
        "''23:30''" "''23:30:59''"]
    by simp
  show ?thesis
    using q r by (simp add: total_seconds_def evening_def)
qed

section \<open>Runs that return\<close>

text \<open>
  A run returns its tables when the seeding and the normalization of the parameters
  succeed, the loop body succeeds from every state, and there is at least one participant
  and one day. The bodies of the example libraries succeed from every state.
\<close>

lemma loop_days_total:
  assumes "\<And>day g. \<exists>r g'. body pid day g = Inr (r, g')"
  shows "\<exists>recs g'. loop_days body pid ds acc g = Inr (recs, g')"
proof (induction ds arbitrary: acc g)
  case Nil
  show ?case by simp
next
  case (Cons day ds)
  from assms obtain r g1 where "body pid day g = Inr (r, g1)" by blast
  with Cons [of "acc @ [r]" g1] show ?case by simp
qed

lemma loop_participants_total:
  assumes "\<And>pid day g. \<exists>r g'. body pid day g = Inr (r, g')"
  shows "\<exists>recs g'. loop_participants body pids days acc g = Inr (recs, g')"
proof (induction pids arbitrary: acc g)
  case Nil
  show ?case by simp
next
  case (Cons pid pids)
  have "\<exists>recs g'. loop_days body pid [1..days] acc g = Inr (recs, g')"
    by (rule loop_days_total) (rule assms)
  then obtain recs1 g1 where "loop_days body pid [1..days] acc g = Inr (recs1, g1)" by blast
  with Cons [of recs1 g1] show ?case by simp
qed

lemma product_upto_nonempty: "1 \<le> n \<Longrightarrow> 1 \<le> days \<Longrightarrow> List.product [1..n] [1..days] \<noteq> []"
proof -
  assume "1 \<le> n" "1 \<le> days"
  then have "length (List.product [1..n] [1..days]) \<noteq> 0"
    by (simp add: length_product)
  then show ?thesis by (simp del: length_product)
qed

lemma generate_advanced_total:
  assumes seed: "np_seed L seed = Inr g0"
    and norm: "normalize_parameters L T = Inr P"
    and body: "\<And>pid day g. \<exists>r g'. advanced_record L P pid day g = Inr (r, g')"
    and n: "1 \<le> n" and days: "1 \<le> days"
  shows "\<exists>df dfj g'. generate_advanced L T days n seed g = Inr ((df, dfj), g')"
proof -
  have "\<exists>recs g'. loop_participants (advanced_record L P) [1..n] days [] g0 = Inr (recs, g')"
    by (rule loop_participants_total) (rule body)
  then obtain recs g' where
    loop: "loop_participants (advanced_record L P) [1..n] days [] g0 = Inr (recs, g')"
    by blast
  have "\<exists>xs. map fst xs = List.product [1..n] [1..days] \<and>
             recs = [] @ map (\<lambda>((pid, day), p). advanced_row L pid day p) xs"
    by (rule loop_participants_rows [OF _ loop]) (erule advanced_record_row)
  then obtain xs where
    xs: "map fst xs = List.product [1..n] [1..days]"
        "recs = map (\<lambda>((pid, day), p). advanced_row L pid day p) xs"
    by auto
  have ne: "xs \<noteq> []"
    using xs(1) product_upto_nonempty [OF n days] by auto
  have e: "emap (build_sleep_json L) (map (\<lambda>((pid, day), p). advanced_full_row L pid day p) xs) =
        Inr (map (\<lambda>((pid, day), p). StrV (json_dumps L (advanced_block p))) xs)"
    by (rule emap_map_Inr) (simp add: case_prod_beta build_sleep_json_full_row)
  from advanced_block_view [OF ne, of L] obtain dfd where
    d: "drop_columns sleep_vars
          (set_column ''Sleep_JSON''
             (map (\<lambda>((pid, day), p). StrV (json_dumps L (advanced_block p))) xs)
             (map (\<lambda>((pid, day), p). advanced_full_row L pid day p) xs)) = Inr dfd" and
    s: "select_columns
          (filter (\<lambda>col. col \<noteq> ''Sleep_JSON'') (columns dfd) @ [''Sleep_JSON'']) dfd =
        Inr (map (\<lambda>((pid, day), p). advanced_block_row L pid day p) xs)"
    by (auto simp: ebind_eq_Inr)
  show ?thesis
    by (simp add: generate_advanced_def seed norm loop xs(2) advanced_clock_columns [OF ne] e d s
        Let_def del: add_clock_columns.simps)
qed


lemma example_normalize: "normalize_parameters example_libs example_table = Inr example_params"
  by (auto simp: normalize_parameters_def example_table_def example_params_def evening_def
      split: variable.splits)


lemma example_advanced_body:
  "\<exists>r g'. advanced_record example_libs example_params pid day g = Inr (r, g')"
  by (simp add: advanced_record_def example_libs_def example_params_def get_params_def
      gamma_parameters_def py_div_def Let_def)

lemma example_seed: "np_seed example_libs 42 = Inr 42"
  by (simp add: example_libs_def)

text \<open>A run without participants or without days raises: its table has no columns.\<close>

lemma loop_participants_no_days:
  "days < 1 \<Longrightarrow> loop_participants body pids days acc g = Inr (acc, g)"
  by (induction pids) simp_all

lemma empty_run_raises:
  assumes "n < 1 \<or> days < 1"
    and "np_seed L seed = Inr g0" and "normalize_parameters L T = Inr P"
  shows "generate_basic L T days n seed g = Inl KeyError"
    and "generate_advanced L T days n seed g = Inl KeyError"
proof -
  have l: "loop_participants body [1..n] days [] g0 = Inr ([], g0)" for body :: "int \<Rightarrow> int \<Rightarrow> 'a \<Rightarrow> error + row \<times> 'a"
    using assms(1) by (auto simp: loop_participants_no_days)
  show "generate_basic L T days n seed g = Inl KeyError"
    by (simp add: generate_basic_def assms(2,3) l add_clock_columns_empty
        del: add_clock_columns.simps)
  show "generate_advanced L T days n seed g = Inl KeyError"
    by (simp add: generate_advanced_def assms(2,3) l add_clock_columns_empty
        del: add_clock_columns.simps)
qed

section \<open>The derived metrics\<close>









section \<open>The parameters of the Gamma distribution\<close>




section \<open>The sleep block and the two tables\<close>

lemma spec_sleep_block_full_row:
  "spec_sleep_block (advanced_full_row L pid day p) = Some (advanced_block p)"
  by (simp add: spec_sleep_block_def float_at_def advanced_full_row_def advanced_row_def
      advanced_block_def minutes_to_clock_def Let_def)

text \<open>
  C6. In a run of the advanced generator, the sleep block serialized for each record is
  the block the specification describes: its totals are the rounded SOL, WASO, SOL + WASO,
  TIB and TST of the record as integers and its SE rounded to one decimal, its start and end
  the clock strings of Lights_Off and Sleep_End modulo 1440; it is what \<^verbatim>\<open>build_sleep_json\<close>
  returns on the record, and the cell \<^verbatim>\<open>Sleep_JSON\<close> of the record's row in the block view.
\<close>

theorem sleep_block_totals:
  assumes "generate_advanced L T days n seed g = Inr ((df, dfj), g')"
  shows "list_all2
           (\<lambda>r rj. \<exists>b. spec_sleep_block r = Some b \<and>
                        build_sleep_json L r = Inr (StrV (json_dumps L b)) \<and>
                        cell_at rj ''Sleep_JSON'' = Inr (StrV (json_dumps L b)))
           df dfj"
proof -
  from generate_advanced_rows [OF assms] obtain xs where
    xs: "df = map (\<lambda>((pid, day), p). advanced_full_row L pid day p) xs"
        "dfj = map (\<lambda>((pid, day), p). advanced_block_row L pid day p) xs"
    by blast
  have "cell_at (advanced_block_row L pid day p) ''Sleep_JSON'' =
          Inr (StrV (json_dumps L (advanced_block p)))" for pid day p
    by (simp add: cell_at_def advanced_block_row_def)
  then show ?thesis
    by (simp add: xs list_all2_map1 list_all2_map2 list_all2_same case_prod_beta
        spec_sleep_block_full_row build_sleep_json_full_row)
qed

lemma example_advanced_run:
  "\<exists>df dfj g'. generate_advanced example_libs example_table 3 2 42 0 = Inr ((df, dfj), g')"
  by (rule generate_advanced_total [OF example_seed example_normalize example_advanced_body])
    simp_all

lemma example_identities:
  "map (identity_of example_libs) (List.product [1..2] [1..3]) =
     [(Inr (StrV ''Mock_001''), Inr (StrV ''01/03/2024'')),
      (Inr (StrV ''Mock_001''), Inr (StrV ''02/03/2024'')),
      (Inr (StrV ''Mock_001''), Inr (StrV ''03/03/2024'')),
      (Inr (StrV ''Mock_002''), Inr (StrV ''01/03/2024'')),
      (Inr (StrV ''Mock_002''), Inr (StrV ''02/03/2024'')),
      (Inr (StrV ''Mock_002''), Inr (StrV ''03/03/2024''))]"
  by code_simp

theorem sleep_block_totals_witness:
  "\<not> isl (generate_advanced example_libs example_table 3 2 42 0) \<and>
   length (fst (fst (projr (generate_advanced example_libs example_table 3 2 42 0)))) = 6 \<and>
   list_all2
     (\<lambda>r rj. \<exists>b. spec_sleep_block r = Some b \<and>
                  build_sleep_json example_libs r = Inr (StrV (json_dumps example_libs b)) \<and>
                  cell_at rj ''Sleep_JSON'' = Inr (StrV (json_dumps example_libs b)))
     (fst (fst (projr (generate_advanced example_libs example_table 3 2 42 0))))
     (snd (fst (projr (generate_advanced example_libs example_table 3 2 42 0))))"
proof -
  from example_advanced_run obtain df dfj g' where
    a: "generate_advanced example_libs example_table 3 2 42 0 = Inr ((df, dfj), g')"
    by blast
  from generate_advanced_rows [OF a] obtain xs where
    xs: "map fst xs = List.product [1..2] [1..3]"
        "df = map (\<lambda>((pid, day), p). advanced_full_row example_libs pid day p) xs" by blast
  have "length (map fst xs) = 6"
    by (simp only: xs(1)) simp
  then have len: "length df = 6" by (simp add: xs(2))
  show ?thesis
    using len sleep_block_totals [OF a] by (simp add: a)
qed

text \<open>
  C7. A run of the advanced generator with \<open>n\<close> participants and \<open>days\<close> days returns two
  tables of \<open>n * days\<close> rows each, the rows in the order of the participants and, for one
  participant, of the days; the block view has none of the numeric and clock-formatted
  sleep columns, and its last column is the serialized sleep block.
\<close>

theorem table_shape:
  assumes "generate_advanced L T days n seed g = Inr ((df, dfj), g')"
  shows "length df = nat n * nat days \<and> length dfj = nat n * nat days \<and>
         map identity_cells df = map (identity_of L) (List.product [1..n] [1..days]) \<and>
         map identity_cells dfj = map (identity_of L) (List.product [1..n] [1..days]) \<and>
         list_all (\<lambda>r. map fst r = advanced_columns) df \<and>
         list_all (\<lambda>r. map fst r = block_view_columns) dfj \<and>
         columns dfj = block_view_columns \<and>
         set (columns dfj) \<inter> set sleep_vars = {} \<and>
         last (columns dfj) = ''Sleep_JSON''"
proof -
  from generate_advanced_rows [OF assms] obtain xs where
    p: "map fst xs = List.product [1..n] [1..days]" and ne: "xs \<noteq> []" and
    xs: "df = map (\<lambda>((pid, day), p). advanced_full_row L pid day p) xs"
        "dfj = map (\<lambda>((pid, day), p). advanced_block_row L pid day p) xs"
    by blast
  have "length (map fst xs) = nat n * nat days"
    by (simp only: p) simp
  then have len: "length xs = nat n * nat days" by simp
  have i1: "identity_cells (advanced_full_row L pid day p) = identity_of L (pid, day)" for pid day p
    by (simp add: identity_cells_def identity_of_def cell_at_def advanced_full_row_def
        advanced_row_def Let_def)
  have i2: "identity_cells (advanced_block_row L pid day p) = identity_of L (pid, day)" for pid day p
    by (simp add: identity_cells_def identity_of_def cell_at_def advanced_block_row_def)
  have m: "map (identity_of L) (List.product [1..n] [1..days]) = map (\<lambda>x. identity_of L (fst x)) xs"
    by (simp only: p [symmetric]) (simp add: comp_def)
  have k1: "map fst (advanced_full_row L pid day p) = advanced_columns" for pid day p
    by (simp add: advanced_full_row_def advanced_row_def advanced_columns_def Let_def)
  have k2: "map fst (advanced_block_row L pid day p) = block_view_columns" for pid day p
    by (simp add: advanced_block_row_def block_view_columns_def)
  have c: "columns dfj = block_view_columns"
    unfolding xs by (rule columns_map [OF ne]) (simp add: case_prod_beta k2)
  have d: "set block_view_columns \<inter> set sleep_vars = {}"
    by (simp add: block_view_columns_def sleep_vars_def)
  have l: "last block_view_columns = ''Sleep_JSON''"
    by (simp add: block_view_columns_def)
  have 1: "length df = nat n * nat days" "length dfj = nat n * nat days"
    by (simp_all add: xs len)
  have 2: "map identity_cells df = map (identity_of L) (List.product [1..n] [1..days])"
    by (simp add: xs m i1 case_prod_beta comp_def)
  have 3: "map identity_cells dfj = map (identity_of L) (List.product [1..n] [1..days])"
    by (simp add: xs m i2 case_prod_beta comp_def)
  have 4: "list_all (\<lambda>r. map fst r = advanced_columns) df"
    by (simp add: xs k1 list_all_iff case_prod_beta)
  have 5: "list_all (\<lambda>r. map fst r = block_view_columns) dfj"
    by (simp add: xs k2 list_all_iff case_prod_beta)
  show ?thesis
    by (simp only: 1 2 3 4 5 c d l simp_thms)
qed

theorem table_shape_witness:
  "\<not> isl (generate_advanced example_libs example_table 3 2 42 0) \<and>
   length (fst (fst (projr (generate_advanced example_libs example_table 3 2 42 0)))) = 6 \<and>
   length (snd (fst (projr (generate_advanced example_libs example_table 3 2 42 0)))) = 6 \<and>
   map identity_cells (snd (fst (projr (generate_advanced example_libs example_table 3 2 42 0)))) =
     [(Inr (StrV ''Mock_001''), Inr (StrV ''01/03/2024'')),
      (Inr (StrV ''Mock_001''), Inr (StrV ''02/03/2024'')),
      (Inr (StrV ''Mock_001''), Inr (StrV ''03/03/2024'')),
      (Inr (StrV ''Mock_002''), Inr (StrV ''01/03/2024'')),
      (Inr (StrV ''Mock_002''), Inr (StrV ''02/03/2024'')),
      (Inr (StrV ''Mock_002''), Inr (StrV ''03/03/2024''))] \<and>
   columns (snd (fst (projr (generate_advanced example_libs example_table 3 2 42 0)))) =
     [''Participant'', ''Email'', ''Day'', ''SQ'', ''Rested'', ''Physical_Activity_Minutes'',
      ''Caffeine'', ''Medication'', ''time to calm down and relax'', ''Sleep_JSON'']"
proof -
  from example_advanced_run obtain df dfj g' where
    a: "generate_advanced example_libs example_table 3 2 42 0 = Inr ((df, dfj), g')"
    by blast
  show ?thesis
    using table_shape [OF a] by (simp add: a example_identities block_view_columns_def)
qed

end
